theory Spec2Isabelle
  imports Main "HOL-Library.Sublist"
begin

section \<open>Python strings\<close>

text \<open>
  A Python \<open>str\<close> is modelled as a \<open>string\<close>: one \<open>char\<close> stands for one
  character of the text (a code point below 256), so \<open>length\<close> is Python's \<open>len\<close>
  and \<open>take n\<close> is the slice \<open>s[:n]\<close>.
\<close>

definition newline :: string where
  "newline = [CHR 0x0A]"

definition apostrophe :: string where
  "apostrophe = [CHR 0x27]"

text \<open>\<open>sep.join(xs)\<close>\<close>

fun join :: "string \<Rightarrow> string list \<Rightarrow> string" where
  "join sep [] = []"
| "join sep [x] = x"
| "join sep (x # y # ys) = x @ sep @ join sep (y # ys)"

text \<open>\<open>s.split(c)\<close> for a one-character separator: always at least one field.\<close>

fun split :: "char \<Rightarrow> string \<Rightarrow> string list" where
  "split c [] = [[]]"
| "split c (x # xs) =
     (if x = c then [] # split c xs
      else (case split c xs of [] \<Rightarrow> [[x]] | f # fs \<Rightarrow> (x # f) # fs))"

text \<open>\<open>s.rfind(c)\<close>: the highest index of \<open>c\<close> in \<open>s\<close>, or \<open>-1\<close>.\<close>

fun rfind :: "char \<Rightarrow> string \<Rightarrow> int" where
  "rfind c [] = - 1"
| "rfind c (x # xs) =
     (let r = rfind c xs
      in if 0 \<le> r then r + 1 else if x = c then 0 else - 1)"

text \<open>\<open>str(n)\<close> for a non-negative integer.\<close>

definition digit_char :: "nat \<Rightarrow> char" where
  "digit_char d = char_of (48 + d)"

fun str_nat :: "nat \<Rightarrow> string" where
  "str_nat n = (if n < 10 then [digit_char n] else str_nat (n div 10) @ [digit_char (n mod 10)])"

declare str_nat.simps [simp del]

text \<open>
  \<open>str.isspace\<close> on one character, for the characters below 256, and \<open>str.strip()\<close>.
\<close>

definition is_space :: "char \<Rightarrow> bool" where
  "is_space c =
     (let n = (of_char c :: nat)
      in (9 \<le> n \<and> n \<le> 13) \<or> (28 \<le> n \<and> n \<le> 32) \<or> n = 133 \<or> n = 160)"

definition strip :: "string \<Rightarrow> string" where
  "strip s = rev (dropWhile is_space (rev (dropWhile is_space s)))"

section \<open>Exceptions\<close>

text \<open>
  The exceptions the program can meet, all subclasses of Python's \<open>Exception\<close>. Each
  carries the operand the library reports (a path or a message). The text \<open>str(e)\<close>
  printed for an exception is produced by the library that raised it; it is the
  parameter \<open>str_exn\<close> of the environment below.
\<close>

datatype exn =
    ValueError string
  | FileNotFoundError string
  | IsADirectoryError string
  | NotADirectoryError string
  | FileExistsError string
  | IndexError
  | APIError string
  | UnicodeEncodeError string

section \<open>pathlib: pure POSIX paths\<close>

text \<open>
  \<open>pathlib.Path\<close> on a POSIX system, as far as the program uses it. A path is its root
  (\<open>''''\<close>, \<open>''/''\<close> or \<open>''//''\<close>) and its components; parsing drops empty components
  and \<open>.\<close> and keeps \<open>..\<close>.
\<close>

record ppath =
  root :: string
  parts :: "string list"

definition splitroot :: "string \<Rightarrow> string \<times> string" where
  "splitroot s =
     (if s \<noteq> [] \<and> hd s = CHR ''/'' then
        (let stripped = dropWhile (\<lambda>c. c = CHR ''/'') s
         in if length s - length stripped = 2 then (''//'', stripped) else (''/'', stripped))
      else ([], s))"

definition Path :: "string \<Rightarrow> ppath" where
  "Path s =
     (let (r, rel) = splitroot s
      in \<lparr>root = r, parts = filter (\<lambda>x. x \<noteq> [] \<and> x \<noteq> ''.'') (split CHR ''/'' rel)\<rparr>)"

definition str_path :: "ppath \<Rightarrow> string" where
  "str_path p = (let s = root p @ join ''/'' (parts p) in if s = [] then ''.'' else s)"

definition name :: "ppath \<Rightarrow> string" where
  "name p = (if parts p = [] then [] else last (parts p))"

definition suffix_of_name :: "string \<Rightarrow> string" where
  "suffix_of_name n =
     (let i = rfind CHR ''.'' n
      in if 0 < i \<and> i < int (length n) - 1 then drop (nat i) n else [])"

definition path_suffix :: "ppath \<Rightarrow> string" where
  "path_suffix p = suffix_of_name (name p)"

definition stem :: "ppath \<Rightarrow> string" where
  "stem p =
     (let n = name p; i = rfind CHR ''.'' n
      in if 0 < i \<and> i < int (length n) - 1 then take (nat i) n else n)"

definition parent :: "ppath \<Rightarrow> ppath" where
  "parent p = p\<lparr>parts := butlast (parts p)\<rparr>"

text \<open>\<open>a / b\<close>: an absolute right operand replaces the left one.\<close>

definition joinpath :: "ppath \<Rightarrow> ppath \<Rightarrow> ppath" where
  "joinpath a b = (if root b \<noteq> [] then b else a\<lparr>parts := parts a @ parts b\<rparr>)"

definition abs_parts :: "ppath \<Rightarrow> string list" where
  "abs_parts p = (if root p \<noteq> [] then [[], root p] @ parts p else parts p)"

text \<open>
  \<open>self.relative_to(other)\<close>: purely lexical; raises \<open>ValueError\<close> unless the anchored
  components of \<open>other\<close> are a prefix of those of \<open>self\<close>.
\<close>

definition relative_to :: "ppath \<Rightarrow> ppath \<Rightarrow> exn + ppath" where
  "relative_to self other =
     (let ap = abs_parts self; top = abs_parts other; n = length top
      in if (if n = 0 then root self \<noteq> [] else take n ap \<noteq> top)
         then Inl (ValueError (str_path self))
         else Inr \<lparr>root = [], parts = drop n ap\<rparr>)"

text \<open>\<open>self.with_suffix(sfx)\<close>\<close>

definition with_suffix :: "ppath \<Rightarrow> string \<Rightarrow> exn + ppath" where
  "with_suffix p sfx =
     (if CHR ''/'' \<in> set sfx then Inl (ValueError sfx)
      else if (sfx \<noteq> [] \<and> hd sfx \<noteq> CHR ''.'') \<or> sfx = ''.'' then Inl (ValueError sfx)
      else
        (let n = name p
         in if n = [] then Inl (ValueError (str_path p))
            else
              (let old_suffix = path_suffix p;
                   n' = (if old_suffix = [] then n @ sfx
                         else take (length n - length old_suffix) n @ sfx)
               in Inr (p\<lparr>parts := butlast (parts p) @ [n']\<rparr>))))"

section \<open>The prompt builder\<close>

text \<open>
  \<open>SummaryGenerator.build_analysis_prompt\<close>: the f-string, line by line. The text before
  the source code is \<open>prompt_head\<close>, the text after it \<open>prompt_tail\<close>.
\<close>

definition truncation_marker :: string where
  "truncation_marker = ''...[truncated]''"

definition prompt_head :: "string \<Rightarrow> string \<Rightarrow> string" where
  "prompt_head rel_path file_ext = join newline
     [''Analyze this source file and generate a structured Markdown summary optimized for AI consumption.'',
      '''',
      ''**File**: `'' @ rel_path @ ''`'',
      '''',
      ''**Your task**: Create a clear, structured summary that will help an AI assistant quickly understand this file''
        @ apostrophe @ ''s purpose, structure, and dependencies.'',
      '''',
      ''**Required sections** (use this exact format):'',
      '''',
      ''# '' @ stem (Path rel_path),
      '''',
      ''## Purpose'',
      ''One concise paragraph explaining what this file does and why it exists.'',
      '''',
      ''## Key Components'',
      ''List the main classes, functions, or exports with brief descriptions:'',
      ''- `ComponentName`: What it does'',
      ''- `functionName()`: What it does'',
      '''',
      ''## Dependencies'',
      ''### Internal (from this codebase)'',
      ''- `path/to/file.py` - What you use from it'',
      ''- `another/file.ts` - What you use from it'',
      '''',
      ''### External (libraries/packages)'',
      ''- `library-name` - What features you use'',
      '''',
      ''## Public API'',
      ''What this file exposes for other files to use:'',
      ''- `export function doThing()`: Description'',
      ''- `class MyClass`: Description'',
      '''',
      ''## Code Links'',
      ''Direct references to key definitions (use format `[symbol_name](code:'' @ rel_path
        @ ''#symbol=symbol_name)`):'',
      ''- [main_function](code:'' @ rel_path @ ''#symbol=main_function)'',
      ''- [ClassName](code:'' @ rel_path @ ''#symbol=ClassName)'',
      '''',
      ''## Implementation Notes'',
      ''Any important patterns, algorithms, or gotchas an AI should know about.'',
      '''',
      ''---'',
      '''',
      ''**Source code**:'',
      ''```'' @ (if file_ext \<noteq> [] then drop 1 file_ext else ''txt''),
      '''']"

definition prompt_tail :: string where
  "prompt_tail = join newline
     ['''',
      ''```'',
      '''',
      ''Generate the summary now. Be precise and focused on information that would help an AI understand the codebase architecture.'']"

definition build_analysis_prompt :: "string \<Rightarrow> string \<Rightarrow> string \<Rightarrow> string" where
  "build_analysis_prompt rel_path file_ext content =
     prompt_head rel_path file_ext
       @ take 8000 content @ ''  ''
       @ (if length content > 8000 then truncation_marker else [])
       @ prompt_tail"

section \<open>Text files, JSON\<close>

text \<open>
  Reading in text mode translates \<open>\r\n\<close> and a lone \<open>\r\<close> to \<open>\n\<close> (universal
  newlines); iterating over the file yields its lines, each with its final \<open>\n\<close>.
\<close>

fun universal_newlines :: "string \<Rightarrow> string" where
  "universal_newlines [] = []"
| "universal_newlines [c] = (if c = CHR 0x0D then [CHR 0x0A] else [c])"
| "universal_newlines (c # d # ds) =
     (if c = CHR 0x0D then
        (if d = CHR 0x0A then CHR 0x0A # universal_newlines ds
         else CHR 0x0A # universal_newlines (d # ds))
      else c # universal_newlines (d # ds))"

fun readlines :: "string \<Rightarrow> string list" where
  "readlines [] = []"
| "readlines (c # cs) =
     (if c = CHR 0x0A then [c] # readlines cs
      else (case readlines cs of [] \<Rightarrow> [[c]] | l # ls \<Rightarrow> (c # l) # ls))"

text \<open>
  \<open>json.dump(d, f, indent=2)\<close> for a dictionary of strings, with the default
  \<open>ensure_ascii\<close> escaping.
\<close>

definition hex_digit :: "nat \<Rightarrow> char" where
  "hex_digit d = (if d < 10 then char_of (48 + d) else char_of (87 + d))"

definition json_escape_char :: "char \<Rightarrow> string" where
  "json_escape_char c =
     (let n = (of_char c :: nat)
      in if c = CHR 0x22 then [CHR 0x5C, CHR 0x22]
         else if c = CHR 0x5C then [CHR 0x5C, CHR 0x5C]
         else if c = CHR 0x0A then [CHR 0x5C, CHR ''n'']
         else if c = CHR 0x0D then [CHR 0x5C, CHR ''r'']
         else if c = CHR 0x09 then [CHR 0x5C, CHR ''t'']
         else if c = CHR 0x08 then [CHR 0x5C, CHR ''b'']
         else if c = CHR 0x0C then [CHR 0x5C, CHR ''f'']
         else if 32 \<le> n \<and> n \<le> 126 then [c]
         else [CHR 0x5C, CHR ''u'', CHR ''0'', CHR ''0'', hex_digit (n div 16), hex_digit (n mod 16)])"

definition json_string :: "string \<Rightarrow> string" where
  "json_string s = [CHR 0x22] @ concat (map json_escape_char s) @ [CHR 0x22]"

definition json_dumps :: "(string \<times> string) list \<Rightarrow> string" where
  "json_dumps d =
     (if d = [] then ''{}''
      else ''{'' @ newline
        @ join ('','' @ newline) (map (\<lambda>(k, v). ''  '' @ json_string k @ '': '' @ json_string v) d)
        @ newline @ ''}'')"

section \<open>The file system\<close>

text \<open>
  The file system maps a path, in the normal form \<open>Path\<close> gives it, to a text file or a
  directory. An empty path (the root, or the current directory) is always a directory.
  Paths are looked up as written: \<open>..\<close> and symbolic links are not resolved, and a
  relative and an absolute path never name the same node. Permissions, quotas and
  encoding errors are not modelled; a file holds its decoded text.
\<close>

datatype node = File string | Dir

type_synonym filesys = "ppath \<Rightarrow> node option"

definition node_at :: "filesys \<Rightarrow> ppath \<Rightarrow> node option" where
  "node_at fs p = (if parts p = [] then Some Dir else fs p)"

definition is_dir :: "filesys \<Rightarrow> ppath \<Rightarrow> bool" where
  "is_dir fs p = (node_at fs p = Some Dir)"

text \<open>
  The directories a path goes through, from the top, and the first of them that is
  missing or is a regular file.
\<close>

definition ancestors :: "ppath \<Rightarrow> ppath list" where
  "ancestors p = map (\<lambda>k. p\<lparr>parts := take k (parts p)\<rparr>) [1..<length (parts p)]"

fun first_non_dir :: "filesys \<Rightarrow> string \<Rightarrow> ppath list \<Rightarrow> exn option" where
  "first_non_dir fs s [] = None"
| "first_non_dir fs s (q # qs) =
     (case node_at fs q of
        None \<Rightarrow> Some (FileNotFoundError s)
      | Some (File c) \<Rightarrow> Some (NotADirectoryError s)
      | Some Dir \<Rightarrow> first_non_dir fs s qs)"

text \<open>
  \<open>open(s, 'r').read()\<close>. The empty file name names no file; every directory on the way
  must be one; a name that ends with a slash or with the component \<open>.\<close> stands for a
  directory, so a regular file under it is refused.
\<close>

definition os_read :: "filesys \<Rightarrow> string \<Rightarrow> exn + string" where
  "os_read fs s =
     (if s = [] then Inl (FileNotFoundError s)
      else
        (case first_non_dir fs s (ancestors (Path s)) of
           Some e \<Rightarrow> Inl e
         | None \<Rightarrow>
             (case node_at fs (Path s) of
                None \<Rightarrow> Inl (FileNotFoundError s)
              | Some Dir \<Rightarrow> Inl (IsADirectoryError s)
              | Some (File c) \<Rightarrow>
                  (if last (split CHR ''/'' s) = [] \<or> last (split CHR ''/'' s) = ''.''
                   then Inl (NotADirectoryError s)
                   else Inr (universal_newlines c)))))"

text \<open>\<open>open(p, 'w').write(c)\<close>: the parent must be a directory, the target must not be one.\<close>

definition os_write :: "filesys \<Rightarrow> ppath \<Rightarrow> string \<Rightarrow> exn + filesys" where
  "os_write fs p c =
     (case node_at fs (parent p) of
        None \<Rightarrow> Inl (FileNotFoundError (str_path p))
      | Some (File x) \<Rightarrow> Inl (NotADirectoryError (str_path p))
      | Some Dir \<Rightarrow>
          (case node_at fs p of
             Some Dir \<Rightarrow> Inl (IsADirectoryError (str_path p))
           | _ \<Rightarrow> Inr (fs(p \<mapsto> File c))))"

text \<open>\<open>os.mkdir(p)\<close>\<close>

definition os_mkdir :: "filesys \<Rightarrow> ppath \<Rightarrow> exn + filesys" where
  "os_mkdir fs p =
     (case node_at fs (parent p) of
        None \<Rightarrow> Inl (FileNotFoundError (str_path p))
      | Some (File x) \<Rightarrow> Inl (NotADirectoryError (str_path p))
      | Some Dir \<Rightarrow>
          (if node_at fs p \<noteq> None then Inl (FileExistsError (str_path p))
           else Inr (fs(p \<mapsto> Dir))))"

fun is_FileNotFoundError :: "exn \<Rightarrow> bool" where
  "is_FileNotFoundError (FileNotFoundError x) = True"
| "is_FileNotFoundError e = False"

text \<open>
  \<open>Path.mkdir(parents, exist_ok)\<close> as the library writes it: try \<open>os.mkdir\<close>; when the
  parent is missing create the parents first and try again; any other error is
  forgiven when \<open>exist_ok\<close> holds and the path is a directory. The result is the
  exception, if any, and the file system as the call leaves it.
\<close>

function mkdir :: "filesys \<Rightarrow> ppath \<Rightarrow> bool \<Rightarrow> bool \<Rightarrow> exn option \<times> filesys" where
  "mkdir fs p parents exist_ok =
     (case os_mkdir fs p of
        Inr fs' \<Rightarrow> (None, fs')
      | Inl e \<Rightarrow>
          (if is_FileNotFoundError e then
             (if \<not> parents \<or> parent p = p then (Some e, fs)
              else
                (case mkdir fs (parent p) True True of
                   (Some e', fs1) \<Rightarrow> (Some e', fs1)
                 | (None, fs1) \<Rightarrow> mkdir fs1 p False exist_ok))
           else if \<not> exist_ok \<or> \<not> is_dir fs p then (Some e, fs)
           else (None, fs)))"
  by pat_completeness auto

termination mkdir
proof (relation "measure (\<lambda>(fs, p, parents, exist_ok). 2 * length (parts p) + (if parents then 1 else 0))", goal_cases)
  case 1
  show ?case by simp
next
  case (2 fs p parents exist_ok e)
  have "parts p \<noteq> []"
  proof
    assume "parts p = []"
    then have "parent p = p" by (cases p) (simp add: parent_def)
    with 2 show False by simp
  qed
  then show ?case by (cases "parts p" rule: rev_cases) (simp_all add: parent_def)
next
  case (3 fs p parents exist_ok e x fs1)
  then show ?case by simp
qed

declare mkdir.simps [simp del]

section \<open>The world: file system, output streams, the remote API\<close>

text \<open>
  What the program does to the outside is recorded in a trace, in order: a line printed
  to standard output or to the error stream (without the newline \<open>print\<close> adds), a file
  opened for reading, a call of \<open>generate_single_summary\<close>, a request sent to the
  remote API.
\<close>

record request =
  model :: string
  max_tokens :: nat
  temperature :: nat
  prompt :: string

datatype event =
    Stdout string
  | Stderr string
  | Open_read string
  | Call_summary string
  | Api_request request

record state =
  fsys :: filesys
  trace :: "event list"

text \<open>
  The environment is what the program cannot control: the answer of the remote API to a
  request (an exception, or the texts of the content blocks of the message), which may
  depend on everything that happened before; the clock; the text \<open>str(e)\<close> of an
  exception; the environment variable \<open>ANTHROPIC_API_KEY\<close>; and which texts the
  encoding of standard output can encode.
\<close>

record env =
  api :: "event list \<Rightarrow> request \<Rightarrow> exn + string list"
  clock :: "event list \<Rightarrow> string"
  str_exn :: "exn \<Rightarrow> string"
  environ_key :: "string option"
  stdout_encodes :: "string \<Rightarrow> bool"

definition emit :: "event \<Rightarrow> state \<Rightarrow> state" where
  "emit ev s = s\<lparr>trace := trace s @ [ev]\<rparr>"

text \<open>
  \<open>print(text)\<close> on standard output, whose error handler is \<open>strict\<close>: a text the
  encoding of the stream cannot encode raises \<open>UnicodeEncodeError\<close> and nothing is
  written. (The error stream replaces what it cannot encode and never raises. The
  progress line of a file holds, beside ASCII, only the path of the file, which was read
  from the file list in the encoding of the locale, the encoding of standard output as
  well; it is printed with \<open>emit\<close>.)
\<close>

definition print_stdout :: "env \<Rightarrow> string \<Rightarrow> state \<Rightarrow> (exn + unit) \<times> state" where
  "print_stdout ev text s =
     (if stdout_encodes ev text then (Inr (), emit (Stdout text) s)
      else (Inl (UnicodeEncodeError text), s))"

section \<open>SummaryGenerator\<close>

record generator =
  workspace_path :: ppath
  docs_path :: ppath
  client_key :: string

text \<open>\<open>SummaryGenerator.__init__\<close>\<close>

definition init :: "string \<Rightarrow> string \<Rightarrow> generator" where
  "init workspace key =
     \<lparr>workspace_path = Path workspace,
      docs_path = joinpath (joinpath (Path workspace) (Path ''docs'')) (Path ''codebase''),
      client_key = key\<rparr>"

text \<open>\<open>SummaryGenerator.generate_single_summary\<close>\<close>

definition generate_single_summary ::
  "env \<Rightarrow> generator \<Rightarrow> string \<Rightarrow> state \<Rightarrow> (exn + string) \<times> state" where
  "generate_single_summary ev g file_path s0 =
     (let s = emit (Open_read file_path) (emit (Call_summary file_path) s0)
      in case os_read (fsys s) file_path of
           Inl e \<Rightarrow> (Inl e, s)
         | Inr content \<Rightarrow>
             (case relative_to (Path file_path) (workspace_path g) of
                Inl e \<Rightarrow> (Inl e, s)
              | Inr rel_path \<Rightarrow>
                  (let file_ext = path_suffix (Path file_path);
                       req = \<lparr>model = ''claude-sonnet-4-20250514'', max_tokens = 4096,
                              temperature = 0,
                              prompt = build_analysis_prompt (str_path rel_path) file_ext content\<rparr>;
                       s' = emit (Api_request req) s
                   in case api ev (trace s) req of
                        Inl e \<Rightarrow> (Inl e, s')
                      | Inr blocks \<Rightarrow>
                          (case blocks of
                             [] \<Rightarrow> (Inl IndexError, s')
                           | b # bs \<Rightarrow> (Inr b, s')))))"

text \<open>\<open>SummaryGenerator.save_summary\<close>\<close>

definition save_summary ::
  "env \<Rightarrow> generator \<Rightarrow> ppath \<Rightarrow> string \<Rightarrow> state \<Rightarrow> (exn + unit) \<times> state" where
  "save_summary ev g rel_path summary s =
     (case with_suffix rel_path ''.md'' of
        Inl e \<Rightarrow> (Inl e, s)
      | Inr md_rel \<Rightarrow>
          (let summary_path = joinpath (docs_path g) md_rel
           in case mkdir (fsys s) (parent summary_path) True True of
                (Some e, fs1) \<Rightarrow> (Inl e, s\<lparr>fsys := fs1\<rparr>)
              | (None, fs1) \<Rightarrow>
                  (case os_write fs1 summary_path summary of
                     Inl e \<Rightarrow> (Inl e, s\<lparr>fsys := fs1\<rparr>)
                   | Inr fs2 \<Rightarrow>
                       (let metadata =
                              [(''source_file'', str_path rel_path),
                               (''summary_file'', str_path md_rel),
                               (''generated_at'', clock ev (trace s))]
                        in case with_suffix summary_path ''.json'' of
                             Inl e \<Rightarrow> (Inl e, s\<lparr>fsys := fs2\<rparr>)
                           | Inr metadata_path \<Rightarrow>
                               (case os_write fs2 metadata_path (json_dumps metadata) of
                                  Inl e \<Rightarrow> (Inl e, s\<lparr>fsys := fs2\<rparr>)
                                | Inr fs3 \<Rightarrow> (Inr (), s\<lparr>fsys := fs3\<rparr>))))))"

text \<open>The body of the \<open>try\<close> block of \<open>generate_summaries\<close>, for one file.\<close>

definition process_file ::
  "env \<Rightarrow> generator \<Rightarrow> nat \<Rightarrow> nat \<Rightarrow> string \<Rightarrow> state \<Rightarrow> (exn + unit) \<times> state" where
  "process_file ev g ntotal idx file_path s =
     (case relative_to (Path file_path) (workspace_path g) of
        Inl e \<Rightarrow> (Inl e, s)
      | Inr rel_path \<Rightarrow>
          (let s1 = emit (Stdout (''Processing '' @ str_nat idx @ ''/'' @ str_nat ntotal @ '': ''
                                 @ str_path rel_path)) s
           in case generate_single_summary ev g file_path s1 of
                (Inl e, s2) \<Rightarrow> (Inl e, s2)
              | (Inr summary, s2) \<Rightarrow> save_summary ev g rel_path summary s2))"

text \<open>One iteration of the loop: the \<open>try\<close> block and its \<open>except Exception\<close> handler.\<close>

definition loop_step :: "env \<Rightarrow> generator \<Rightarrow> nat \<Rightarrow> nat \<Rightarrow> string \<Rightarrow> state \<Rightarrow> state" where
  "loop_step ev g ntotal idx file_path s =
     (case process_file ev g ntotal idx file_path s of
        (Inl e, s') \<Rightarrow>
          emit (Stderr (''ERROR: Failed to process '' @ file_path @ '': '' @ str_exn ev e)) s'
      | (Inr u, s') \<Rightarrow> s')"

text \<open>The loop \<open>for idx, file_path in enumerate(file_paths, 1)\<close>.\<close>

fun summaries_loop :: "env \<Rightarrow> generator \<Rightarrow> nat \<Rightarrow> nat \<Rightarrow> string list \<Rightarrow> state \<Rightarrow> state" where
  "summaries_loop ev g ntotal idx [] s = s"
| "summaries_loop ev g ntotal idx (file_path # rest) s =
     summaries_loop ev g ntotal (idx + 1) rest (loop_step ev g ntotal idx file_path s)"

text \<open>\<open>SummaryGenerator.generate_summaries\<close>\<close>

definition generate_summaries ::
  "env \<Rightarrow> generator \<Rightarrow> string list \<Rightarrow> state \<Rightarrow> (exn + unit) \<times> state" where
  "generate_summaries ev g file_paths s =
     (case mkdir (fsys s) (docs_path g) True True of
        (Some e, fs1) \<Rightarrow> (Inl e, s\<lparr>fsys := fs1\<rparr>)
      | (None, fs1) \<Rightarrow>
          (Inr (), summaries_loop ev g (length file_paths) 1 file_paths (s\<lparr>fsys := fs1\<rparr>)))"

section \<open>main\<close>

text \<open>
  The parsed command line. How the process ends: \<open>sys.exit(n)\<close> or the end of \<open>main\<close>
  (status 0), or an exception nothing catches (a traceback, status 1).
\<close>

record args =
  workspace :: string
  files :: string
  api_key :: "string option"

datatype outcome = Exit nat | Uncaught exn

fun exit_status :: "outcome \<Rightarrow> nat" where
  "exit_status (Exit n) = n"
| "exit_status (Uncaught e) = 1"

text \<open>
  The two marks the final messages start with: the characters U+201A, U+00FA, U+00D6 and
  U+F8FF, U+00FC, U+00EC, U+00C5, written as the UTF-8 bytes the source file holds. An
  ASCII or Latin-1 standard output can encode neither mark, a Windows-1252 one only the
  first, a UTF-8 one both.
\<close>

definition mark_done :: string where
  "mark_done = [CHR 0xE2, CHR 0x80, CHR 0x9A, CHR 0xC3, CHR 0xBA, CHR 0xC3, CHR 0x96]"

definition mark_folder :: string where
  "mark_folder = [CHR 0xEF, CHR 0xA3, CHR 0xBF, CHR 0xC3, CHR 0xBC, CHR 0xC3, CHR 0xAC, CHR 0xC3, CHR 0x85]"

text \<open>\<open>args.api_key or os.environ.get('ANTHROPIC_API_KEY')\<close>\<close>

definition resolve_api_key :: "env \<Rightarrow> args \<Rightarrow> string option" where
  "resolve_api_key ev a =
     (case api_key a of
        Some k \<Rightarrow> (if k \<noteq> [] then Some k else environ_key ev)
      | None \<Rightarrow> environ_key ev)"

text \<open>\<open>[line.strip() for line in f if line.strip()]\<close>\<close>

definition file_list :: "string \<Rightarrow> string list" where
  "file_list text = map strip (filter (\<lambda>line. strip line \<noteq> []) (readlines text))"

definition main :: "env \<Rightarrow> args \<Rightarrow> state \<Rightarrow> outcome \<times> state" where
  "main ev a s =
     (case resolve_api_key ev a of
        None \<Rightarrow>
          (Exit 1, emit (Stderr ''ERROR: API key required. Set ANTHROPIC_API_KEY or use --api-key'') s)
      | Some key \<Rightarrow>
          (if key = [] then
             (Exit 1, emit (Stderr ''ERROR: API key required. Set ANTHROPIC_API_KEY or use --api-key'') s)
           else
             (let s1 = emit (Open_read (files a)) s
              in case os_read (fsys s1) (files a) of
                   Inl e \<Rightarrow> (Uncaught e, s1)
                 | Inr text \<Rightarrow>
                     (let fl = file_list text
                      in if fl = [] then
                           (Exit 1, emit (Stderr ''ERROR: No files to process'') s1)
                         else
                           (let generator = init (workspace a) key
                            in case generate_summaries ev generator fl s1 of
                                 (Inl e, s2) \<Rightarrow> (Uncaught e, s2)
                               | (Inr u, s2) \<Rightarrow>
                                   (case print_stdout ev
                                           (newline @ mark_done @ '' Successfully generated ''
                                              @ str_nat (length fl) @ '' summaries'') s2 of
                                      (Inl e, s3) \<Rightarrow> (Uncaught e, s3)
                                    | (Inr u, s3) \<Rightarrow>
                                        (case print_stdout ev
                                                (mark_folder @ '' Output location: ''
                                                   @ str_path (docs_path generator)) s3 of
                                           (Inl e, s4) \<Rightarrow> (Uncaught e, s4)
                                         | (Inr u, s4) \<Rightarrow> (Exit 0, s4))))))))"

section \<open>Reading the trace\<close>

text \<open>The files \<open>generate_single_summary\<close> was called on, in order.\<close>

fun summary_calls :: "event list \<Rightarrow> string list" where
  "summary_calls [] = []"
| "summary_calls (Call_summary f # es) = f # summary_calls es"
| "summary_calls (e # es) = summary_calls es"

text \<open>
  The files opened for reading, the requests sent to the remote API, the lines printed
  to the error stream and those printed to standard output, in order.
\<close>

fun opened_files :: "event list \<Rightarrow> string list" where
  "opened_files [] = []"
| "opened_files (Open_read f # es) = f # opened_files es"
| "opened_files (e # es) = opened_files es"

fun api_requests :: "event list \<Rightarrow> request list" where
  "api_requests [] = []"
| "api_requests (Api_request r # es) = r # api_requests es"
| "api_requests (e # es) = api_requests es"

fun stderr_lines :: "event list \<Rightarrow> string list" where
  "stderr_lines [] = []"
| "stderr_lines (Stderr l # es) = l # stderr_lines es"
| "stderr_lines (e # es) = stderr_lines es"

fun stdout_lines :: "event list \<Rightarrow> string list" where
  "stdout_lines [] = []"
| "stdout_lines (Stdout l # es) = l # stdout_lines es"
| "stdout_lines (e # es) = stdout_lines es"

section \<open>The notions of the specification\<close>

text \<open>
  A path lies under a directory when both have the same root and the components of the
  directory are the first components of the path.
\<close>

definition lies_under :: "ppath \<Rightarrow> ppath \<Rightarrow> bool" where
  "lies_under p w \<longleftrightarrow> root p = root w \<and> prefix (parts w) (parts p)"

text \<open>
  The output layout in the words of the specification: a path with its extension
  replaced (the name without its suffix, then the new extension), and the place of a
  workspace-relative path under \<open>W/docs/codebase\<close>.
\<close>

definition replace_ext :: "ppath \<Rightarrow> string \<Rightarrow> ppath" where
  "replace_ext p ext = p\<lparr>parts := butlast (parts p) @ [stem p @ ext]\<rparr>"

definition output_path :: "string \<Rightarrow> ppath \<Rightarrow> string \<Rightarrow> ppath" where
  "output_path ws rel ext =
     joinpath (joinpath (joinpath (Path ws) (Path ''docs'')) (Path ''codebase'')) (replace_ext rel ext)"

text \<open>
  Processing a file fails before the save step when its path is not under the workspace
  root or when \<open>generate_single_summary\<close> raises (the file cannot be read, the API
  call fails, the message has no content block).
\<close>

definition fails_before_save :: "env \<Rightarrow> generator \<Rightarrow> nat \<Rightarrow> nat \<Rightarrow> string \<Rightarrow> state \<Rightarrow> bool" where
  "fails_before_save ev g ntotal idx file_path s =
     (case relative_to (Path file_path) (workspace_path g) of
        Inl e \<Rightarrow> True
      | Inr rel_path \<Rightarrow>
          (case fst (generate_single_summary ev g file_path
                       (emit (Stdout (''Processing '' @ str_nat idx @ ''/'' @ str_nat ntotal @ '': ''
                                      @ str_path rel_path)) s)) of
             Inl e \<Rightarrow> True
           | Inr summary \<Rightarrow> False))"



section \<open>Example runs\<close>

text \<open>
  Two environments with a standard output that encodes every text (UTF-8): a remote API
  that answers every request with one block of text, and one that fails every request.
\<close>

definition ex_env :: env where
  "ex_env = \<lparr>api = (\<lambda>tr rq. Inr [''# summary'']), clock = (\<lambda>tr. ''2025-01-01T00:00:00''),
             str_exn = (\<lambda>e. ''error''), environ_key = None, stdout_encodes = (\<lambda>text. True)\<rparr>"

definition failing_env :: env where
  "failing_env = \<lparr>api = (\<lambda>tr rq. Inl (APIError ''overloaded'')), clock = (\<lambda>tr. ''2025-01-01T00:00:00''),
                 str_exn = (\<lambda>e. ''error''), environ_key = None, stdout_encodes = (\<lambda>text. True)\<rparr>"



definition ex_args :: args where
  "ex_args = \<lparr>workspace = ''/w'', files = ''/list.txt'', api_key = Some ''key''\<rparr>"


definition mixed_state :: state where
  "mixed_state =
     \<lparr>fsys = [Path ''/w'' \<mapsto> Dir, Path ''/w/a.py'' \<mapsto> File ''a = 1'',
              Path ''/w/c.py'' \<mapsto> File ''c = 3'',
              Path ''/x'' \<mapsto> Dir, Path ''/x/b.py'' \<mapsto> File ''b = 2'',
              Path ''/list.txt'' \<mapsto> File (''/w/a.py'' @ newline @ ''/x/b.py'' @ newline @ ''/w/c.py'' @ newline)],
      trace = []\<rparr>"

definition blank_list_state :: state where
  "blank_list_state =
     \<lparr>fsys = [Path ''/w'' \<mapsto> Dir,
              Path ''/list.txt'' \<mapsto> File (''   '' @ newline @ newline @ [CHR 0x09] @ newline)],
      trace = []\<rparr>"

definition one_file_state :: state where
  "one_file_state =
     \<lparr>fsys = [Path ''/w'' \<mapsto> Dir, Path ''/w/src'' \<mapsto> Dir, Path ''/w/src/foo'' \<mapsto> Dir,
              Path ''/w/src/foo/bar.ts'' \<mapsto> File ''let x = 1;'',
              Path ''/list.txt'' \<mapsto> File ''/w/src/foo/bar.ts''],
      trace = []\<rparr>"

text \<open>The example of the specification, with relative paths and the workspace \<open>.\<close>.\<close>

definition relative_state :: state where
  "relative_state =
     \<lparr>fsys = [Path ''src'' \<mapsto> Dir, Path ''src/foo'' \<mapsto> Dir,
              Path ''src/foo/bar.ts'' \<mapsto> File ''let x = 1;''],
      trace = []\<rparr>"

text \<open>
  A workspace with a directory \<open>a.json\<close> beside the file \<open>a.py\<close>, and no documentation
  yet.
\<close>

definition clean_state :: state where
  "clean_state =
     \<lparr>fsys = [Path ''/w'' \<mapsto> Dir, Path ''/w/a.py'' \<mapsto> File ''a = 1'',
              Path ''/w/a.json'' \<mapsto> Dir, Path ''/w/a.json/b.py'' \<mapsto> File ''b = 2''],
      trace = []\<rparr>"

section \<open>Facts about strings and paths\<close>

text \<open>
  A text that does not contain the character \<open>c\<close> occurs in \<open>xs @ c # ys\<close> only inside
  \<open>xs\<close> or inside \<open>ys\<close>.
\<close>

lemma sublist_delim:
  assumes "c \<notin> set m"
  shows "sublist m (xs @ c # ys) \<longleftrightarrow> sublist m xs \<or> sublist m ys"
proof
  assume "sublist m (xs @ c # ys)"
  then consider "sublist m xs" | "sublist m (c # ys)"
    | xs1 xs2 where "m = xs1 @ xs2" "Sublist.suffix xs1 xs" "prefix xs2 (c # ys)"
    by (auto simp: sublist_append)
  then show "sublist m xs \<or> sublist m ys"
  proof cases
    case 1 then show ?thesis by simp
  next
    case 2
    then have "prefix m (c # ys) \<or> sublist m ys" by (simp add: sublist_Cons_right)
    moreover have "prefix m (c # ys) \<Longrightarrow> m = []" using assms by (cases m) auto
    ultimately show ?thesis by auto
  next
    case 3
    have "xs2 = []" using 3(1,3) assms by (cases xs2) auto
    then have "Sublist.suffix m xs" using 3 by simp
    then show ?thesis by auto
  qed
next
  assume "sublist m xs \<or> sublist m ys"
  then show "sublist m (xs @ c # ys)"
    by (metis sublist_append sublist_Cons_right)
qed

lemma split_fields:
  "\<exists>g gs. split c xs = g # gs \<and> prefix g xs \<and> (\<forall>f\<in>set gs. sublist f xs)"
proof (induction xs)
  case Nil then show ?case by simp
next
  case (Cons x xs)
  then obtain g gs where sp: "split c xs = g # gs" "prefix g xs" "\<forall>f\<in>set gs. sublist f xs"
    by blast
  show ?case
  proof (cases "x = c")
    case True
    with sp show ?thesis by (auto simp: sublist_Cons_right)
  next
    case False
    with sp show ?thesis by (auto simp: sublist_Cons_right)
  qed
qed

lemma split_sublist: "f \<in> set (split c xs) \<Longrightarrow> sublist f xs"
  using split_fields [of c xs] by auto

lemma name_Path_sublist: "sublist (name (Path r)) r"
proof (cases "parts (Path r) = []")
  case True then show ?thesis by (simp add: name_def)
next
  case False
  then have "name (Path r) \<in> set (parts (Path r))" by (simp add: name_def)
  then have "name (Path r) \<in> set (split CHR ''/'' (snd (splitroot r)))"
    by (auto simp: Path_def split: prod.splits)
  then have "sublist (name (Path r)) (snd (splitroot r))" by (rule split_sublist)
  moreover have "sublist (snd (splitroot r)) r"
    by (simp add: splitroot_def Let_def)
  ultimately show ?thesis using sublist_order.order_trans by blast
qed

lemma stem_Path_sublist: "sublist (stem (Path r)) r"
proof -
  have "sublist (stem (Path r)) (name (Path r))" by (simp add: stem_def Let_def)
  then show ?thesis using name_Path_sublist sublist_order.order_trans by blast
qed

section \<open>The prompt builder: truncation\<close>

text \<open>
  The fixed text of the prompt does not contain the truncation marker, and the marker
  cannot straddle the border of an inserted text: each insertion stands between
  characters the marker does not have. So a prompt built from a path, an extension and
  a text of at most 8000 characters that do not contain the marker does not contain it.
\<close>

lemma marker_absent:
  assumes "length content \<le> 8000"
    and "\<not> sublist truncation_marker rel_path"
    and "\<not> sublist truncation_marker file_ext"
    and "\<not> sublist truncation_marker content"
  shows "\<not> sublist truncation_marker (build_analysis_prompt rel_path file_ext content)"
proof -
  have st: "\<not> sublist truncation_marker (stem (Path rel_path))"
    using assms(2) stem_Path_sublist sublist_order.order_trans by blast
  have ex: "\<not> sublist truncation_marker (drop 1 file_ext)"
    using assms(3) sublist_drop sublist_order.order_trans by blast
  show ?thesis
    using assms st ex unfolding truncation_marker_def
    by (simp add: build_analysis_prompt_def prompt_head_def prompt_tail_def newline_def
        apostrophe_def sublist_delim sublist_Cons_right del: sublist_code)
qed

text \<open>
  Claim C4. A source text longer than 8000 characters enters the prompt as exactly its
  first 8000 characters, followed (after the two blanks of the template) by the
  truncation marker. A source text of at most 8000 characters enters the prompt whole
  and unchanged, followed directly by the two blanks and the closing code fence: the
  builder adds no marker, and the prompt contains the marker nowhere unless the path,
  the extension or the source text itself contains it.
\<close>

theorem build_analysis_prompt_truncation:
  "(8000 < length content \<longrightarrow>
      build_analysis_prompt rel_path file_ext content
        = prompt_head rel_path file_ext @ take 8000 content @ ''  '' @ truncation_marker @ prompt_tail
      \<and> length (take 8000 content) = 8000)
   \<and> (length content \<le> 8000 \<longrightarrow>
      build_analysis_prompt rel_path file_ext content
        = prompt_head rel_path file_ext @ content @ ''  '' @ prompt_tail
      \<and> (\<not> sublist truncation_marker rel_path \<and> \<not> sublist truncation_marker file_ext
           \<and> \<not> sublist truncation_marker content
         \<longrightarrow> \<not> sublist truncation_marker (build_analysis_prompt rel_path file_ext content)))"
  using marker_absent [of content rel_path file_ext]
  by (simp add: build_analysis_prompt_def)

theorem build_analysis_prompt_truncation_witness:
  "build_analysis_prompt ''src/a.py'' ''.py'' (replicate 8001 (CHR ''x''))
     = prompt_head ''src/a.py'' ''.py'' @ replicate 8000 (CHR ''x'') @ ''  '' @ truncation_marker
         @ prompt_tail
   \<and> build_analysis_prompt ''src/a.py'' ''.py'' ''print(1)''
     = prompt_head ''src/a.py'' ''.py'' @ ''print(1)'' @ ''  '' @ prompt_tail
   \<and> \<not> sublist truncation_marker (build_analysis_prompt ''src/a.py'' ''.py'' ''print(1)'')"
proof -
  have long: "8000 < length (replicate 8001 (CHR ''x''))" by simp
  have short: "length ''print(1)'' \<le> 8000" by simp
  have clean: "\<not> sublist truncation_marker ''src/a.py'' \<and> \<not> sublist truncation_marker ''.py''
      \<and> \<not> sublist truncation_marker ''print(1)''"
    by (simp add: truncation_marker_def sublist_Cons_right)
  have A: "build_analysis_prompt ''src/a.py'' ''.py'' (replicate 8001 (CHR ''x''))
     = prompt_head ''src/a.py'' ''.py'' @ take 8000 (replicate 8001 (CHR ''x'')) @ ''  ''
         @ truncation_marker @ prompt_tail"
    using long
      build_analysis_prompt_truncation [of "replicate 8001 (CHR ''x'')" "''src/a.py''" "''.py''"]
    by blast
  have B: "build_analysis_prompt ''src/a.py'' ''.py'' ''print(1)''
     = prompt_head ''src/a.py'' ''.py'' @ ''print(1)'' @ ''  '' @ prompt_tail
     \<and> \<not> sublist truncation_marker (build_analysis_prompt ''src/a.py'' ''.py'' ''print(1)'')"
    using short clean
      build_analysis_prompt_truncation [of "''print(1)''" "''src/a.py''" "''.py''"]
    by blast
  have C: "take 8000 (replicate 8001 (CHR ''x'')) = replicate 8000 (CHR ''x'')" by simp
  show ?thesis
    using A B unfolding C by blast
qed

section \<open>Facts about the trace\<close>

lemma summary_calls_append [simp]:
  "summary_calls (xs @ ys) = summary_calls xs @ summary_calls ys"
  by (induction xs rule: summary_calls.induct) simp_all

lemma opened_files_append [simp]:
  "opened_files (xs @ ys) = opened_files xs @ opened_files ys"
  by (induction xs rule: opened_files.induct) simp_all

lemma api_requests_append [simp]:
  "api_requests (xs @ ys) = api_requests xs @ api_requests ys"
  by (induction xs rule: api_requests.induct) simp_all

lemma stderr_lines_append [simp]:
  "stderr_lines (xs @ ys) = stderr_lines xs @ stderr_lines ys"
  by (induction xs rule: stderr_lines.induct) simp_all

lemma stdout_lines_append [simp]:
  "stdout_lines (xs @ ys) = stdout_lines xs @ stdout_lines ys"
  by (induction xs rule: stdout_lines.induct) simp_all

lemma fsys_emit [simp]: "fsys (emit e s) = fsys s"
  by (simp add: emit_def)

lemma trace_emit [simp]: "trace (emit e s) = trace s @ [e]"
  by (simp add: emit_def)


section \<open>Paths under the workspace\<close>

lemma Path_parts_nonempty: "[] \<notin> set (parts (Path s))"
  by (simp add: Path_def split: prod.splits)

text \<open>
  \<open>relative_to\<close> succeeds exactly on the paths under the directory, and then returns
  the remaining components.
\<close>

lemma relative_to_under:
  assumes "[] \<notin> set (parts p)" and "[] \<notin> set (parts w)"
  shows "relative_to p w =
           (if lies_under p w then Inr \<lparr>root = [], parts = drop (length (parts w)) (parts p)\<rparr>
            else Inl (ValueError (str_path p)))"
proof -
  have pre: "prefix (parts w) (parts p) \<longleftrightarrow> take (length (parts w)) (parts p) = parts w"
    by (metis append_take_drop_id prefix_def append_eq_conv_conj)
  have hd_p: "parts p \<noteq> [] \<Longrightarrow> hd (parts p) \<noteq> []" using assms(1) by (cases "parts p") auto
  have hd_w: "parts w \<noteq> [] \<Longrightarrow> hd (parts w) \<noteq> []" using assms(2) by (cases "parts w") auto
  consider (rr) "root p \<noteq> []" "root w \<noteq> []" | (ra) "root p \<noteq> []" "root w = []"
    | (ar) "root p = []" "root w \<noteq> []" | (aa) "root p = []" "root w = []"
    by blast
  then show ?thesis
  proof cases
    case rr
    then show ?thesis
      by (auto simp: relative_to_def abs_parts_def lies_under_def pre Let_def)
  next
    case ra
    show ?thesis
    proof (cases "parts w")
      case Nil
      with ra show ?thesis
        by (simp add: relative_to_def abs_parts_def lies_under_def Let_def)
    next
      case (Cons x xs)
      with hd_w have "x \<noteq> []" by simp
      with ra Cons show ?thesis
        by (auto simp: relative_to_def abs_parts_def lies_under_def Let_def)
    qed
  next
    case ar
    show ?thesis
    proof (cases "parts p")
      case Nil
      with ar show ?thesis
        by (simp add: relative_to_def abs_parts_def lies_under_def Let_def)
    next
      case (Cons x xs)
      with hd_p have "x \<noteq> []" by simp
      with ar Cons show ?thesis
        by (auto simp: relative_to_def abs_parts_def lies_under_def Let_def)
    qed
  next
    case aa
    then show ?thesis
      by (cases "parts w = []") (auto simp: relative_to_def abs_parts_def lies_under_def pre Let_def)
  qed
qed

lemma relative_to_Path:
  "relative_to (Path f) (Path ws) =
     (if lies_under (Path f) (Path ws)
      then Inr \<lparr>root = [], parts = drop (length (parts (Path ws))) (parts (Path f))\<rparr>
      else Inl (ValueError (str_path (Path f))))"
  by (rule relative_to_under) (rule Path_parts_nonempty)+

lemma workspace_path_init [simp]: "workspace_path (init ws key) = Path ws"
  by (simp add: init_def)

section \<open>What one file does to the trace and to the file system\<close>


lemma generate_single_summary_fsys:
  "fsys (snd (generate_single_summary ev g f s)) = fsys s"
  by (simp add: generate_single_summary_def Let_def split: sum.splits list.splits)

lemma save_summary_trace:
  "trace (snd (save_summary ev g rel summary s)) = trace s"
  by (simp add: save_summary_def Let_def split: sum.splits prod.splits option.splits)




lemma summaries_loop_append:
  "summaries_loop ev g n i (xs @ ys) s =
     summaries_loop ev g n (i + length xs) ys (summaries_loop ev g n i xs s)"
  by (induction xs arbitrary: i s) simp_all




section \<open>The trace only grows\<close>

lemma generate_single_summary_trace:
  "\<exists>evs. trace (snd (generate_single_summary ev g f s)) = trace s @ evs"
  by (simp add: generate_single_summary_def Let_def split: sum.splits list.splits)

lemma process_file_trace:
  "\<exists>evs. trace (snd (process_file ev g n i f s)) = trace s @ evs"
proof (cases "relative_to (Path f) (workspace_path g)")
  case (Inl e)
  then show ?thesis by (simp add: process_file_def)
next
  case (Inr r)
  let ?s1 = "emit (Stdout (''Processing '' @ str_nat i @ ''/'' @ str_nat n @ '': '' @ str_path r)) s"
  obtain res s2 where g: "generate_single_summary ev g f ?s1 = (res, s2)" by force
  obtain evs where c: "trace s2 = trace ?s1 @ evs"
    using generate_single_summary_trace [of ev g f ?s1] g by auto
  show ?thesis
  proof (cases res)
    case (Inl e)
    with Inr g c show ?thesis by (simp add: process_file_def Let_def)
  next
    case (Inr summary)
    with \<open>relative_to (Path f) (workspace_path g) = Inr r\<close> g c
      save_summary_trace [of ev g r summary s2]
    show ?thesis by (simp add: process_file_def Let_def)
  qed
qed

lemma loop_step_trace:
  "\<exists>evs. trace (loop_step ev g n i f s) = trace s @ evs"
proof -
  obtain res s' where p: "process_file ev g n i f s = (res, s')" by force
  with process_file_trace [of ev g n i f s] show ?thesis
    by (cases res) (auto simp: loop_step_def)
qed

lemma summaries_loop_trace:
  "\<exists>evs. trace (summaries_loop ev g n i fl s) = trace s @ evs"
proof (induction fl arbitrary: i s)
  case Nil
  then show ?case by simp
next
  case (Cons f fl)
  obtain evs1 where 1: "trace (loop_step ev g n i f s) = trace s @ evs1"
    using loop_step_trace by blast
  obtain evs2 where 2: "trace (summaries_loop ev g n (i + 1) fl (loop_step ev g n i f s))
      = trace (loop_step ev g n i f s) @ evs2"
    using Cons.IH by blast
  show ?case using 1 2 by simp
qed

text \<open>
  Claim C2. When processing a file raises an exception, at whatever position of the
  batch, the handler prints one line to the error stream that holds the path of the file
  and the message of the exception, and the loop goes on with the next file from the
  state the failed file left; the line is in the error stream when the batch ends. The
  batch itself ends normally whatever the files did: once the documentation directory
  exists, \<open>generate_summaries\<close> raises nothing.
\<close>

theorem failed_file_logged_and_batch_continues:
  assumes "process_file ev g n (i + length before) f (summaries_loop ev g n i before s) = (Inl e, s')"
  shows "summaries_loop ev g n i (before @ f # rest) s =
           summaries_loop ev g n (i + length before + 1) rest
             (emit (Stderr (''ERROR: Failed to process '' @ f @ '': '' @ str_exn ev e)) s')
         \<and> (''ERROR: Failed to process '' @ f @ '': '' @ str_exn ev e)
             \<in> set (stderr_lines (trace (summaries_loop ev g n i (before @ f # rest) s)))
         \<and> (fst (mkdir (fsys st) (docs_path g) True True) = None
             \<longrightarrow> fst (generate_summaries ev g fls st) = Inr ())"
proof -
  let ?line = "''ERROR: Failed to process '' @ f @ '': '' @ str_exn ev e"
  have step: "loop_step ev g n (i + length before) f (summaries_loop ev g n i before s)
      = emit (Stderr ?line) s'"
    using assms by (simp add: loop_step_def)
  have 1: "summaries_loop ev g n i (before @ f # rest) s =
      summaries_loop ev g n (i + length before + 1) rest (emit (Stderr ?line) s')"
    by (simp add: summaries_loop_append step)
  obtain evs where "trace (summaries_loop ev g n (i + length before + 1) rest (emit (Stderr ?line) s'))
      = trace (emit (Stderr ?line) s') @ evs"
    using summaries_loop_trace by blast
  then have 2: "?line \<in> set (stderr_lines (trace (summaries_loop ev g n i (before @ f # rest) s)))"
    unfolding 1 by simp
  have 3: "fst (mkdir (fsys st) (docs_path g) True True) = None
      \<longrightarrow> fst (generate_summaries ev g fls st) = Inr ()"
    by (auto simp: generate_summaries_def split: prod.splits option.splits)
  from 1 2 3 show ?thesis by blast
qed

text \<open>
  Claim C9. For a listed file that does not lie under the workspace root,
  \<open>relative_to\<close> raises \<open>ValueError\<close> inside the \<open>try\<close> block. All the iteration does is
  print the error line with the path of the file: no file is opened, no request is sent,
  the file system is unchanged, and the loop goes on with the rest of the list.
\<close>

theorem outside_workspace_file_skipped:
  assumes "\<not> lies_under (Path f) (Path ws)"
  shows "relative_to (Path f) (workspace_path (init ws key)) = Inl (ValueError (str_path (Path f)))
         \<and> loop_step ev (init ws key) n i f s =
             emit (Stderr (''ERROR: Failed to process '' @ f @ '': ''
                           @ str_exn ev (ValueError (str_path (Path f))))) s
         \<and> opened_files (trace (loop_step ev (init ws key) n i f s)) = opened_files (trace s)
         \<and> api_requests (trace (loop_step ev (init ws key) n i f s)) = api_requests (trace s)
         \<and> summary_calls (trace (loop_step ev (init ws key) n i f s)) = summary_calls (trace s)
         \<and> fsys (loop_step ev (init ws key) n i f s) = fsys s
         \<and> summaries_loop ev (init ws key) n i (f # rest) s =
             summaries_loop ev (init ws key) n (i + 1) rest
               (emit (Stderr (''ERROR: Failed to process '' @ f @ '': ''
                              @ str_exn ev (ValueError (str_path (Path f))))) s)"
proof -
  have r: "relative_to (Path f) (workspace_path (init ws key)) = Inl (ValueError (str_path (Path f)))"
    using assms by (simp add: relative_to_Path)
  have st: "loop_step ev (init ws key) n i f s =
      emit (Stderr (''ERROR: Failed to process '' @ f @ '': ''
                    @ str_exn ev (ValueError (str_path (Path f))))) s"
    using r by (simp add: loop_step_def process_file_def)
  show ?thesis using r st by simp
qed

theorem failed_file_logged_and_batch_continues_witness:
  "fst (process_file ex_env (init ''/w'' ''key'') 3 2 ''/x/b.py''
          (summaries_loop ex_env (init ''/w'' ''key'') 3 1 [''/w/a.py''] mixed_state))
     = Inl (ValueError ''/x/b.py'')
   \<and> ''ERROR: Failed to process /x/b.py: error''
       \<in> set (stderr_lines (trace (summaries_loop ex_env (init ''/w'' ''key'') 3 1
                 [''/w/a.py'', ''/x/b.py'', ''/w/c.py''] mixed_state)))
   \<and> fst (generate_summaries ex_env (init ''/w'' ''key'') [''/w/a.py'', ''/x/b.py'', ''/w/c.py'']
            mixed_state) = Inr ()"
proof -
  let ?g = "init ''/w'' ''key''"
  let ?s1 = "summaries_loop ex_env ?g 3 1 [''/w/a.py''] mixed_state"
  have f: "fst (process_file ex_env ?g 3 2 ''/x/b.py'' ?s1) = Inl (ValueError ''/x/b.py'')"
    by code_simp
  have i2: "1 + length [''/w/a.py''] = (2::nat)" by simp
  have h: "process_file ex_env ?g 3 2 ''/x/b.py'' ?s1
      = (Inl (ValueError ''/x/b.py''), snd (process_file ex_env ?g 3 2 ''/x/b.py'' ?s1))"
    using f by (simp add: prod_eq_iff)
  have m: "fst (mkdir (fsys mixed_state) (docs_path ?g) True True) = None" by code_simp
  have line: "''ERROR: Failed to process '' @ ''/x/b.py'' @ '': ''
      @ str_exn ex_env (ValueError ''/x/b.py'') = ''ERROR: Failed to process /x/b.py: error''"
    by (simp add: ex_env_def)
  have lst: "[''/w/a.py''] @ ''/x/b.py'' # [''/w/c.py''] = [''/w/a.py'', ''/x/b.py'', ''/w/c.py'']"
    by simp
  note T0 = failed_file_logged_and_batch_continues [where i = 1 and before = "[''/w/a.py'']"
      and rest = "[''/w/c.py'']" and st = mixed_state
      and fls = "[''/w/a.py'', ''/x/b.py'', ''/w/c.py'']", unfolded i2]
  note T = T0 [OF h, unfolded line lst]
  have "''ERROR: Failed to process /x/b.py: error''
       \<in> set (stderr_lines (trace (summaries_loop ex_env ?g 3 1
                 [''/w/a.py'', ''/x/b.py'', ''/w/c.py''] mixed_state)))"
    using T by blast
  moreover have "fst (generate_summaries ex_env ?g [''/w/a.py'', ''/x/b.py'', ''/w/c.py'']
            mixed_state) = Inr ()"
    using T m by blast
  ultimately show ?thesis using f by blast
qed

theorem outside_workspace_file_skipped_witness:
  "\<not> lies_under (Path ''/x/b.py'') (Path ''/w'')
   \<and> loop_step ex_env (init ''/w'' ''key'') 3 2 ''/x/b.py'' mixed_state
       = emit (Stderr ''ERROR: Failed to process /x/b.py: error'') mixed_state
   \<and> opened_files (trace (loop_step ex_env (init ''/w'' ''key'') 3 2 ''/x/b.py'' mixed_state)) = []
   \<and> api_requests (trace (loop_step ex_env (init ''/w'' ''key'') 3 2 ''/x/b.py'' mixed_state)) = []
   \<and> summaries_loop ex_env (init ''/w'' ''key'') 3 2 [''/x/b.py'', ''/w/c.py''] mixed_state
       = summaries_loop ex_env (init ''/w'' ''key'') 3 3 [''/w/c.py'']
           (emit (Stderr ''ERROR: Failed to process /x/b.py: error'') mixed_state)"
proof -
  have h: "\<not> lies_under (Path ''/x/b.py'') (Path ''/w'')" by code_simp
  have e: "str_exn ex_env (ValueError (str_path (Path ''/x/b.py''))) = ''error''"
    by (simp add: ex_env_def)
  have t: "trace mixed_state = []" by (simp add: mixed_state_def)
  note T = outside_workspace_file_skipped [OF h, where key = "''key''" and ev = ex_env
      and n = 3 and i = 2 and s = mixed_state and rest = "[''/w/c.py'']"]
  show ?thesis using h T e t by simp
qed

section \<open>main: configuration errors, exit status, final message\<close>

text \<open>
  Claim C6. With no API key on the command line (none, or an empty one) and none in the
  environment, \<open>main\<close> prints the error to the error stream and exits with status 1; it
  opens no file, so the file list is not read.
\<close>

theorem missing_api_key_exits:
  assumes "api_key a = None \<or> api_key a = Some []"
    and "environ_key ev = None \<or> environ_key ev = Some []"
  shows "main ev a s =
           (Exit 1, emit (Stderr ''ERROR: API key required. Set ANTHROPIC_API_KEY or use --api-key'') s)
         \<and> exit_status (fst (main ev a s)) = 1
         \<and> opened_files (trace (snd (main ev a s))) = opened_files (trace s)"
  using assms by (auto simp: main_def resolve_api_key_def)

theorem missing_api_key_exits_witness:
  "main ex_env \<lparr>workspace = ''/w'', files = ''/list.txt'', api_key = None\<rparr> mixed_state =
     (Exit 1, emit (Stderr ''ERROR: API key required. Set ANTHROPIC_API_KEY or use --api-key'')
                mixed_state)
   \<and> opened_files (trace (snd (main ex_env \<lparr>workspace = ''/w'', files = ''/list.txt'', api_key = None\<rparr>
                                   mixed_state))) = []"
proof -
  let ?a = "\<lparr>workspace = ''/w'', files = ''/list.txt'', api_key = None\<rparr>"
  have 1: "api_key ?a = None \<or> api_key ?a = Some []" by simp
  have 2: "environ_key ex_env = None \<or> environ_key ex_env = Some []" by (simp add: ex_env_def)
  have t: "opened_files (trace mixed_state) = []" by (simp add: mixed_state_def)
  show ?thesis using missing_api_key_exits [OF 1 2, of mixed_state] t by simp
qed

lemma file_list_blank:
  assumes "\<forall>l\<in>set (readlines text). strip l = []"
  shows "file_list text = []"
  using assms by (simp add: file_list_def filter_empty_conv)

text \<open>
  Claim C5. When the file list holds no non-blank line, \<open>main\<close> exits with status 1 and
  its last output is a line on the error stream; it sends no request to the remote API,
  calls the summary step for no file and leaves the file system as it was. When an API
  key is there, the line is the one for the empty list.
\<close>

theorem empty_file_list_exits:
  assumes "os_read (fsys s) (files a) = Inr text"
    and "\<forall>l\<in>set (readlines text). strip l = []"
  shows "fst (main ev a s) = Exit 1
         \<and> (\<exists>msg. stderr_lines (trace (snd (main ev a s))) = stderr_lines (trace s) @ [msg])
         \<and> api_requests (trace (snd (main ev a s))) = api_requests (trace s)
         \<and> summary_calls (trace (snd (main ev a s))) = summary_calls (trace s)
         \<and> fsys (snd (main ev a s)) = fsys s
         \<and> (\<forall>key. resolve_api_key ev a = Some key \<and> key \<noteq> [] \<longrightarrow>
               snd (main ev a s) =
                 emit (Stderr ''ERROR: No files to process'') (emit (Open_read (files a)) s))"
proof -
  have fl: "file_list text = []" using assms(2) by (rule file_list_blank)
  show ?thesis
  proof (cases "resolve_api_key ev a")
    case None
    then show ?thesis by (simp add: main_def)
  next
    case (Some key)
    then show ?thesis using assms(1) fl by (simp add: main_def Let_def)
  qed
qed

theorem empty_file_list_exits_witness:
  "os_read (fsys blank_list_state) (files ex_args) = Inr (''   '' @ newline @ newline @ [CHR 0x09] @ newline)
   \<and> main ex_env ex_args blank_list_state =
       (Exit 1, emit (Stderr ''ERROR: No files to process'')
                  (emit (Open_read ''/list.txt'') blank_list_state))
   \<and> api_requests (trace (snd (main ex_env ex_args blank_list_state))) = []"
proof -
  let ?text = "''   '' @ newline @ newline @ [CHR 0x09] @ newline"
  have r: "os_read (fsys blank_list_state) (files ex_args) = Inr ?text" by code_simp
  have m: "map strip (readlines ?text) = [[], [], []]" by code_simp
  have b: "\<forall>l\<in>set (readlines ?text). strip l = []"
  proof
    fix l
    assume "l \<in> set (readlines ?text)"
    then have "strip l \<in> set (map strip (readlines ?text))" by (simp del: readlines.simps)
    then show "strip l = []" unfolding m by simp
  qed
  have k: "resolve_api_key ex_env ex_args = Some ''key'' \<and> ''key'' \<noteq> []" by code_simp
  have t: "api_requests (trace blank_list_state) = []" by (simp add: blank_list_state_def)
  have f: "files ex_args = ''/list.txt''" by (simp add: ex_args_def)
  note T = empty_file_list_exits [OF r b, of ex_env]
  have "fst (main ex_env ex_args blank_list_state) = Exit 1" using T by blast
  moreover have "snd (main ex_env ex_args blank_list_state) =
      emit (Stderr ''ERROR: No files to process'') (emit (Open_read ''/list.txt'') blank_list_state)"
    using T k unfolding f by blast
  moreover have "api_requests (trace (snd (main ex_env ex_args blank_list_state))) = []"
    using T t by simp
  ultimately show ?thesis using r by (simp add: prod_eq_iff)
qed

section \<open>main: after the batch\<close>








section \<open>Suffixes\<close>

lemma rfind_absent: "c \<notin> set ys \<Longrightarrow> rfind c ys = - 1"
  by (induction ys) (auto simp: Let_def)

lemma rfind_last: "c \<notin> set ys \<Longrightarrow> rfind c (xs @ c # ys) = int (length xs)"
  by (induction xs) (auto simp: Let_def rfind_absent)

lemma name_stem_suffix: "name p = stem p @ path_suffix p"
  by (simp add: stem_def path_suffix_def suffix_of_name_def Let_def)

lemma stem_nonempty: "name p \<noteq> [] \<Longrightarrow> stem p \<noteq> []"
  by (auto simp: stem_def Let_def)

lemma take_stem: "take (length (name p) - length (path_suffix p)) (name p) = stem p"
  by (auto simp: stem_def path_suffix_def suffix_of_name_def Let_def)

lemma with_suffix_replace_ext:
  assumes "name p \<noteq> []" and "ext = ''.md'' \<or> ext = ''.json''"
  shows "with_suffix p ext = Inr (replace_ext p ext)"
proof -
  have "(if path_suffix p = [] then name p @ ext
         else take (length (name p) - length (path_suffix p)) (name p) @ ext) = stem p @ ext"
    using take_stem [of p] by (auto simp: name_stem_suffix)
  then show ?thesis
    using assms by (auto simp: with_suffix_def replace_ext_def Let_def)
qed

lemma suffix_of_md: "b \<noteq> [] \<Longrightarrow> suffix_of_name (b @ ''.md'') = ''.md''"
  using rfind_last [of "CHR ''.''" "''md''" b]
  by (simp add: suffix_of_name_def Let_def)


section \<open>Writing files\<close>

lemma os_write_Inr:
  assumes "os_write fs p c = Inr fs'"
  shows "fs' = fs(p \<mapsto> File c) \<and> node_at fs (parent p) = Some Dir \<and> parts p \<noteq> []"
  using assms
  by (auto simp: os_write_def node_at_def split: option.splits node.splits if_splits)

lemma parent_neq: "parts p \<noteq> [] \<Longrightarrow> parent p \<noteq> p"
proof
  assume a: "parts p \<noteq> []" and "parent p = p"
  then have "parts (parent p) = parts p" by simp
  then have "butlast (parts p) = parts p" by (simp add: parent_def)
  with a show False by (cases "parts p" rule: rev_cases) simp_all
qed

lemma joinpath_relative:
  "root r = [] \<Longrightarrow> joinpath d r = d\<lparr>parts := parts d @ parts r\<rparr>"
  by (simp add: joinpath_def)

text \<open>
  After a \<open>save_summary\<close> that raised nothing, the summary and the metadata are where the
  layout says, under a directory, and nothing was printed.
\<close>

lemma save_summary_success:
  assumes ok: "save_summary ev g rel summary s = (Inr (), s')" and rel: "root rel = []"
  shows "name rel \<noteq> []
         \<and> fsys s' (joinpath (docs_path g) (replace_ext rel ''.md'')) = Some (File summary)
         \<and> fsys s' (joinpath (docs_path g) (replace_ext rel ''.json''))
             = Some (File (json_dumps [(''source_file'', str_path rel),
                                      (''summary_file'', str_path (replace_ext rel ''.md'')),
                                      (''generated_at'', clock ev (trace s))]))
         \<and> is_dir (fsys s') (parent (joinpath (docs_path g) (replace_ext rel ''.md'')))
         \<and> trace s' = trace s"
proof -
  let ?md = "replace_ext rel ''.md''" and ?js = "replace_ext rel ''.json''"
  let ?sp = "joinpath (docs_path g) ?md" and ?mp = "joinpath (docs_path g) ?js"
  let ?meta = "json_dumps [(''source_file'', str_path rel), (''summary_file'', str_path ?md),
                           (''generated_at'', clock ev (trace s))]"
  have nm: "name rel \<noteq> []"
  proof
    assume "name rel = []"
    then have "with_suffix rel ''.md'' = Inl (ValueError (str_path rel))"
      by (simp add: with_suffix_def)
    with ok show False by (simp add: save_summary_def)
  qed
  then have pr: "parts rel \<noteq> []" by (auto simp: name_def)
  have w1: "with_suffix rel ''.md'' = Inr ?md"
    using nm by (simp add: with_suffix_replace_ext)
  have sp: "?sp = (docs_path g)\<lparr>parts := parts (docs_path g) @ butlast (parts rel) @ [stem rel @ ''.md'']\<rparr>"
    using rel by (simp add: joinpath_def replace_ext_def)
  have mp: "?mp = (docs_path g)\<lparr>parts := parts (docs_path g) @ butlast (parts rel) @ [stem rel @ ''.json'']\<rparr>"
    using rel by (simp add: joinpath_def replace_ext_def)
  have name_sp: "name ?sp = stem rel @ ''.md''" unfolding sp by (simp add: name_def)
  have "path_suffix ?sp = ''.md''"
    unfolding path_suffix_def name_sp using stem_nonempty [OF nm] by (rule suffix_of_md)
  then have w2: "with_suffix ?sp ''.json'' = Inr ?mp"
    unfolding mp using name_sp
    by (simp add: with_suffix_def Let_def sp butlast_append)
  have neq: "?sp \<noteq> ?mp"
  proof
    assume "?sp = ?mp"
    then have "parts ?sp = parts ?mp" by simp
    then show False unfolding sp mp by simp
  qed
  obtain fs1 where m: "mkdir (fsys s) (parent ?sp) True True = (None, fs1)"
    using ok w1 by (auto simp: save_summary_def Let_def split: prod.splits option.splits)
  obtain fs2 where o1: "os_write fs1 ?sp summary = Inr fs2"
    using ok w1 m by (auto simp: save_summary_def Let_def split: sum.splits)
  obtain fs3 where o2: "os_write fs2 ?mp ?meta = Inr fs3"
    using ok w1 m o1 w2 by (auto simp: save_summary_def Let_def split: sum.splits)
  have s': "s' = s\<lparr>fsys := fs3\<rparr>"
    using ok w1 m o1 w2 o2 by (simp add: save_summary_def Let_def)
  have fs2: "fs2 = fs1(?sp \<mapsto> File summary)" and dir1: "node_at fs1 (parent ?sp) = Some Dir"
    and psp: "parts ?sp \<noteq> []"
    using os_write_Inr [OF o1] by simp_all
  have fs3: "fs3 = fs2(?mp \<mapsto> File ?meta)" using os_write_Inr [OF o2] by simp
  have par: "parent ?mp = parent ?sp" unfolding sp mp by (simp add: parent_def butlast_append)
  have pmp: "parts ?mp \<noteq> []" unfolding mp by simp
  have n1: "parent ?sp \<noteq> ?sp" using psp by (rule parent_neq)
  have n2: "parent ?sp \<noteq> ?mp" using parent_neq [OF pmp] par by simp
  have "node_at fs3 (parent ?sp) = Some Dir"
    using dir1 n1 n2 unfolding fs3 fs2 by (auto simp: node_at_def split: if_splits)
  then have d: "is_dir (fsys s') (parent ?sp)" by (simp add: is_dir_def s')
  have a: "fsys s' ?sp = Some (File summary)" using neq by (simp add: s' fs3 fs2)
  have b: "fsys s' ?mp = Some (File ?meta)" by (simp add: s' fs3)
  from nm a b d show ?thesis by (simp add: s')
qed


lemma parent_joinpath_replace_ext:
  "root rel = [] \<Longrightarrow> parent (joinpath d (replace_ext rel ext)) = joinpath d (parent rel)"
  by (simp add: joinpath_def replace_ext_def parent_def butlast_append)

lemma docs_path_init:
  "docs_path (init ws key) = joinpath (joinpath (Path ws) (Path ''docs'')) (Path ''codebase'')"
  by (simp add: init_def)

text \<open>
  Claim C3. When a file F is processed without an exception, it lies under the workspace
  root W; with \<open>rel\<close> its path relative to W, the text the summary step returned is the
  content of \<open>W/docs/codebase/rel\<close> with the extension replaced by \<open>.md\<close>, the metadata
  is the content of the same path with \<open>.json\<close>, and both lie in the directory
  \<open>W/docs/codebase/parent(rel)\<close>, which exists: the output tree mirrors the input tree.
\<close>

theorem output_layout:
  assumes "process_file ev (init ws key) n i f s = (Inr (), s')"
  shows "\<exists>rel summary stamp.
           relative_to (Path f) (Path ws) = Inr rel
         \<and> name rel = stem rel @ path_suffix rel
         \<and> fst (generate_single_summary ev (init ws key) f
                  (emit (Stdout (''Processing '' @ str_nat i @ ''/'' @ str_nat n @ '': ''
                                 @ str_path rel)) s)) = Inr summary
         \<and> fsys s' (output_path ws rel ''.md'') = Some (File summary)
         \<and> fsys s' (output_path ws rel ''.json'')
             = Some (File (json_dumps [(''source_file'', str_path rel),
                                      (''summary_file'', str_path (replace_ext rel ''.md'')),
                                      (''generated_at'', stamp)]))
         \<and> parent (output_path ws rel ''.md'') = joinpath (docs_path (init ws key)) (parent rel)
         \<and> parent (output_path ws rel ''.json'') = joinpath (docs_path (init ws key)) (parent rel)
         \<and> is_dir (fsys s') (joinpath (docs_path (init ws key)) (parent rel))"
proof -
  let ?g = "init ws key"
  obtain rel where r: "relative_to (Path f) (Path ws) = Inr rel"
    using assms by (cases "relative_to (Path f) (Path ws)") (simp_all add: process_file_def)
  have root: "root rel = []"
    using r by (auto simp: relative_to_Path split: if_splits)
  let ?s1 = "emit (Stdout (''Processing '' @ str_nat i @ ''/'' @ str_nat n @ '': '' @ str_path rel)) s"
  obtain res s2 where g: "generate_single_summary ev ?g f ?s1 = (res, s2)" by force
  obtain summary where res: "res = Inr summary"
    using assms r g by (cases res) (simp_all add: process_file_def Let_def)
  have sv: "save_summary ev ?g rel summary s2 = (Inr (), s')"
    using assms r g res by (simp add: process_file_def Let_def)
  note S = save_summary_success [OF sv root]
  have out: "\<And>ext. output_path ws rel ext = joinpath (docs_path ?g) (replace_ext rel ext)"
    by (simp add: output_path_def docs_path_init)
  have par: "\<And>ext. parent (output_path ws rel ext) = joinpath (docs_path ?g) (parent rel)"
    unfolding out using root by (rule parent_joinpath_replace_ext)
  have 1: "fst (generate_single_summary ev ?g f ?s1) = Inr summary" using g res by simp
  have 2: "fsys s' (output_path ws rel ''.md'') = Some (File summary)" using S out by simp
  have 3: "fsys s' (output_path ws rel ''.json'')
             = Some (File (json_dumps [(''source_file'', str_path rel),
                                      (''summary_file'', str_path (replace_ext rel ''.md'')),
                                      (''generated_at'', clock ev (trace s2))]))"
    using S out by simp
  have 4: "is_dir (fsys s') (joinpath (docs_path ?g) (parent rel))"
    using S par [of "''.md''"] out by simp
  from r name_stem_suffix [of rel] 1 2 3 par 4 show ?thesis by blast
qed

theorem output_layout_witness:
  "fst (process_file ex_env (init ''.'' ''key'') 1 1 ''src/foo/bar.ts'' relative_state) = Inr ()
   \<and> fsys (snd (process_file ex_env (init ''.'' ''key'') 1 1 ''src/foo/bar.ts'' relative_state))
        (Path ''docs/codebase/src/foo/bar.md'') = Some (File ''# summary'')
   \<and> (\<exists>stamp. fsys (snd (process_file ex_env (init ''.'' ''key'') 1 1 ''src/foo/bar.ts'' relative_state))
        (Path ''docs/codebase/src/foo/bar.json'')
        = Some (File (json_dumps [(''source_file'', ''src/foo/bar.ts''),
                                 (''summary_file'', ''src/foo/bar.md''),
                                 (''generated_at'', stamp)])))
   \<and> is_dir (fsys (snd (process_file ex_env (init ''.'' ''key'') 1 1 ''src/foo/bar.ts'' relative_state)))
        (Path ''docs/codebase/src/foo'')"
proof -
  let ?g = "init ''.'' ''key''"
  let ?p = "process_file ex_env ?g 1 1 ''src/foo/bar.ts'' relative_state"
  let ?rel = "\<lparr>root = [], parts = [''src'', ''foo'', ''bar.ts'']\<rparr>"
  have f: "fst ?p = Inr ()" by code_simp
  have h: "?p = (Inr (), snd ?p)" using f by (simp add: prod_eq_iff)
  obtain rel summary stamp where
    r: "relative_to (Path ''src/foo/bar.ts'') (Path ''.'') = Inr rel"
    and g: "fst (generate_single_summary ex_env ?g ''src/foo/bar.ts''
              (emit (Stdout (''Processing '' @ str_nat 1 @ ''/'' @ str_nat 1 @ '': '' @ str_path rel))
                 relative_state)) = Inr summary"
    and md: "fsys (snd ?p) (output_path ''.'' rel ''.md'') = Some (File summary)"
    and js: "fsys (snd ?p) (output_path ''.'' rel ''.json'')
             = Some (File (json_dumps [(''source_file'', str_path rel),
                                      (''summary_file'', str_path (replace_ext rel ''.md'')),
                                      (''generated_at'', stamp)]))"
    and dir: "is_dir (fsys (snd ?p)) (joinpath (docs_path ?g) (parent rel))"
    using output_layout [OF h] by blast
  have "relative_to (Path ''src/foo/bar.ts'') (Path ''.'') = Inr ?rel" by code_simp
  with r have rel: "rel = ?rel" by simp
  have "fst (generate_single_summary ex_env ?g ''src/foo/bar.ts''
              (emit (Stdout (''Processing '' @ str_nat 1 @ ''/'' @ str_nat 1 @ '': '' @ str_path ?rel))
                 relative_state)) = Inr ''# summary''"
    by code_simp
  with g have summary: "summary = ''# summary''" unfolding rel by simp
  have p1: "output_path ''.'' ?rel ''.md'' = Path ''docs/codebase/src/foo/bar.md''" by code_simp
  have p2: "output_path ''.'' ?rel ''.json'' = Path ''docs/codebase/src/foo/bar.json''" by code_simp
  have p3: "joinpath (docs_path ?g) (parent ?rel) = Path ''docs/codebase/src/foo''" by code_simp
  have n1: "str_path ?rel = ''src/foo/bar.ts''" by code_simp
  have n2: "str_path (replace_ext ?rel ''.md'') = ''src/foo/bar.md''" by code_simp
  from md have 1: "fsys (snd ?p) (Path ''docs/codebase/src/foo/bar.md'') = Some (File ''# summary'')"
    unfolding rel summary p1 .
  from js have 2: "\<exists>stamp. fsys (snd ?p) (Path ''docs/codebase/src/foo/bar.json'')
        = Some (File (json_dumps [(''source_file'', ''src/foo/bar.ts''),
                                 (''summary_file'', ''src/foo/bar.md''),
                                 (''generated_at'', stamp)]))"
    unfolding rel p2 n1 n2 by blast
  from dir have 3: "is_dir (fsys (snd ?p)) (Path ''docs/codebase/src/foo'')"
    unfolding rel p3 .
  from f 1 2 3 show ?thesis by blast
qed

section \<open>What a failed file leaves behind\<close>

text \<open>\<open>mkdir\<close> touches only the path it is given and its ancestors.\<close>

lemma os_mkdir_Inr: "os_mkdir fs p = Inr fs' \<Longrightarrow> fs' = fs(p \<mapsto> Dir)"
  by (auto simp: os_mkdir_def split: option.splits node.splits if_splits)

lemma mkdir_frame:
  "length (parts p) < length (parts q) \<Longrightarrow> snd (mkdir fs p parents exist_ok) q = fs q"
proof (induction fs p parents exist_ok rule: mkdir.induct)
  case (1 fs p parents exist_ok)
  show ?case
  proof (cases "os_mkdir fs p")
    case (Inr fs')
    then have "fs' = fs(p \<mapsto> Dir)" by (rule os_mkdir_Inr)
    moreover have "q \<noteq> p" using "1.prems" by auto
    ultimately show ?thesis using Inr by (subst mkdir.simps) simp
  next
    case (Inl e)
    show ?thesis
    proof (cases "is_FileNotFoundError e \<and> \<not> (\<not> parents \<or> parent p = p)")
      case False
      then show ?thesis using Inl by (subst mkdir.simps) auto
    next
      case True
      have len: "length (parts (parent p)) < length (parts q)"
        using "1.prems" by (simp add: parent_def)
      have ih1: "snd (mkdir fs (parent p) True True) q = fs q"
        using "1.IH"(1) [OF Inl] True len by blast
      obtain r fs1 where m: "mkdir fs (parent p) True True = (r, fs1)" by force
      with ih1 have fs1: "fs1 q = fs q" by simp
      show ?thesis
      proof (cases r)
        case (Some e')
        with Inl True m fs1 show ?thesis by (subst mkdir.simps) simp
      next
        case None
        have "snd (mkdir fs1 p False exist_ok) q = fs1 q"
          using "1.IH"(2) [OF Inl _ _ _ _ "1.prems"] True m None by auto
        with Inl True m None fs1 show ?thesis by (subst mkdir.simps) simp
      qed
    qed
  qed
qed


lemma summary_paths:
  assumes nm: "name rel \<noteq> []" and rel: "root rel = []"
  shows "with_suffix (joinpath d (replace_ext rel ''.md'')) ''.json''
           = Inr (joinpath d (replace_ext rel ''.json''))"
    and "joinpath d (replace_ext rel ''.md'') \<noteq> joinpath d (replace_ext rel ''.json'')"
    and "length (parts (parent (joinpath d (replace_ext rel ''.md''))))
           < length (parts (joinpath d (replace_ext rel ''.json'')))"
proof -
  let ?sp = "joinpath d (replace_ext rel ''.md'')" and ?mp = "joinpath d (replace_ext rel ''.json'')"
  have sp: "?sp = d\<lparr>parts := parts d @ butlast (parts rel) @ [stem rel @ ''.md'']\<rparr>"
    using rel by (simp add: joinpath_def replace_ext_def)
  have mp: "?mp = d\<lparr>parts := parts d @ butlast (parts rel) @ [stem rel @ ''.json'']\<rparr>"
    using rel by (simp add: joinpath_def replace_ext_def)
  have name_sp: "name ?sp = stem rel @ ''.md''" unfolding sp by (simp add: name_def)
  have "path_suffix ?sp = ''.md''"
    unfolding path_suffix_def name_sp using stem_nonempty [OF nm] by (rule suffix_of_md)
  then show "with_suffix ?sp ''.json'' = Inr ?mp"
    unfolding mp using name_sp
    by (simp add: with_suffix_def Let_def sp butlast_append)
  show "?sp \<noteq> ?mp"
  proof
    assume "?sp = ?mp"
    then have "parts ?sp = parts ?mp" by simp
    then show False unfolding sp mp by simp
  qed
  show "length (parts (parent ?sp)) < length (parts ?mp)"
    unfolding sp mp by (simp add: parent_def butlast_append)
qed

text \<open>A \<open>save_summary\<close> that raises leaves the place of the JSON sidecar as it was.\<close>

lemma save_summary_failure_sidecar:
  assumes fail: "save_summary ev g rel summary s = (Inl e, s')" and rel: "root rel = []"
  shows "fsys s' (joinpath (docs_path g) (replace_ext rel ''.json''))
           = fsys s (joinpath (docs_path g) (replace_ext rel ''.json''))"
proof (cases "name rel = []")
  case True
  then have "with_suffix rel ''.md'' = Inl (ValueError (str_path rel))"
    by (simp add: with_suffix_def)
  with fail show ?thesis by (simp add: save_summary_def)
next
  case False
  let ?sp = "joinpath (docs_path g) (replace_ext rel ''.md'')"
  let ?mp = "joinpath (docs_path g) (replace_ext rel ''.json'')"
  let ?meta = "json_dumps [(''source_file'', str_path rel),
                           (''summary_file'', str_path (replace_ext rel ''.md'')),
                           (''generated_at'', clock ev (trace s))]"
  have w1: "with_suffix rel ''.md'' = Inr (replace_ext rel ''.md'')"
    using False by (simp add: with_suffix_replace_ext)
  note P = summary_paths [OF False rel, of "docs_path g"]
  obtain r fs1 where m: "mkdir (fsys s) (parent ?sp) True True = (r, fs1)" by force
  have fs1: "fs1 ?mp = fsys s ?mp"
    using mkdir_frame [OF P(3), of "fsys s" True True] m by simp
  show ?thesis
  proof (cases r)
    case (Some e1)
    with fail w1 m fs1 show ?thesis by (auto simp: save_summary_def Let_def)
  next
    case None
    show ?thesis
    proof (cases "os_write fs1 ?sp summary")
      case (Inl e2)
      with fail w1 m None fs1 show ?thesis by (auto simp: save_summary_def Let_def)
    next
      case (Inr fs2)
      then have fs2: "fs2 = fs1(?sp \<mapsto> File summary)" using os_write_Inr by blast
      show ?thesis
      proof (cases "os_write fs2 ?mp ?meta")
        case (Inl e3)
        with fail w1 m None Inr P(1) have "s' = s\<lparr>fsys := fs2\<rparr>"
          by (auto simp: save_summary_def Let_def)
        with fs2 fs1 P(2) show ?thesis by simp
      next
        case (Inr fs3)
        with fail w1 m None \<open>os_write fs1 ?sp summary = Inr fs2\<close> P(1) show ?thesis
          by (auto simp: save_summary_def Let_def)
      qed
    qed
  qed
qed

text \<open>
  Claim C7, as the code has it. A file whose processing fails before the save step
  (path outside the workspace, unreadable file, API failure) leaves the file system
  exactly as it was: nothing is written for it. A file whose processing fails in any
  way, the save step included, never gets its JSON sidecar written. (A failure inside the
  save step can leave the directories and the \<open>.md\<close> file it had already written.)
\<close>

theorem failed_file_output:
  "(fails_before_save ev (init ws key) n i f s \<longrightarrow>
      (\<exists>e. fst (process_file ev (init ws key) n i f s) = Inl e)
      \<and> fsys (snd (process_file ev (init ws key) n i f s)) = fsys s
      \<and> fsys (loop_step ev (init ws key) n i f s) = fsys s)
   \<and> (\<forall>e rel. fst (process_file ev (init ws key) n i f s) = Inl e
         \<and> relative_to (Path f) (Path ws) = Inr rel \<longrightarrow>
       fsys (snd (process_file ev (init ws key) n i f s)) (output_path ws rel ''.json'')
         = fsys s (output_path ws rel ''.json''))"
proof -
  let ?g = "init ws key"
  have A: "(\<exists>e. fst (process_file ev ?g n i f s) = Inl e)
      \<and> fsys (snd (process_file ev ?g n i f s)) = fsys s
      \<and> fsys (loop_step ev ?g n i f s) = fsys s" if fb: "fails_before_save ev ?g n i f s"
  proof (cases "relative_to (Path f) (Path ws)")
    case (Inl e)
    then show ?thesis by (simp add: process_file_def loop_step_def)
  next
    case (Inr rel)
    let ?s1 = "emit (Stdout (''Processing '' @ str_nat i @ ''/'' @ str_nat n @ '': '' @ str_path rel)) s"
    obtain res s2 where g: "generate_single_summary ev ?g f ?s1 = (res, s2)" by force
    obtain e where res: "res = Inl e"
      using fb Inr g by (cases res) (simp_all add: fails_before_save_def)
    have "fsys s2 = fsys s" using generate_single_summary_fsys [of ev ?g f ?s1] g by simp
    then show ?thesis using Inr g res by (simp add: process_file_def loop_step_def Let_def)
  qed
  have B: "fsys (snd (process_file ev ?g n i f s)) (output_path ws rel ''.json'')
         = fsys s (output_path ws rel ''.json'')"
    if pf: "fst (process_file ev ?g n i f s) = Inl e" and r: "relative_to (Path f) (Path ws) = Inr rel"
    for e rel
  proof -
    have root: "root rel = []" using r by (auto simp: relative_to_Path split: if_splits)
    let ?s1 = "emit (Stdout (''Processing '' @ str_nat i @ ''/'' @ str_nat n @ '': '' @ str_path rel)) s"
    obtain res s2 where g: "generate_single_summary ev ?g f ?s1 = (res, s2)" by force
    have s2: "fsys s2 = fsys s" using generate_single_summary_fsys [of ev ?g f ?s1] g by simp
    have out: "output_path ws rel ''.json'' = joinpath (docs_path ?g) (replace_ext rel ''.json'')"
      by (simp add: output_path_def docs_path_init)
    show ?thesis
    proof (cases res)
      case (Inl e1)
      then show ?thesis using r g s2 by (simp add: process_file_def Let_def)
    next
      case (Inr summary)
      obtain s' where sv: "save_summary ev ?g rel summary s2 = (Inl e, s')"
        using pf r g Inr by (cases "save_summary ev ?g rel summary s2") (simp add: process_file_def Let_def)
      have "snd (process_file ev ?g n i f s) = s'"
        using r g Inr sv by (simp add: process_file_def Let_def)
      then show ?thesis
        using save_summary_failure_sidecar [OF sv root] s2 out by simp
    qed
  qed
  from A B show ?thesis by blast
qed

text \<open>
  The claim as the specification states it (a failed file leaves no output) fails when
  the sidecar cannot be written. In the workspace \<open>/w\<close> with the files \<open>a.json/b.py\<close>
  and \<open>a.py\<close>, the first file makes \<open>docs/codebase/a.json\<close> a directory; the second
  file then has its summary written to \<open>docs/codebase/a.md\<close>, fails on the sidecar
  with \<open>IsADirectoryError\<close>, and the summary stays.
\<close>

theorem partial_output_after_failed_sidecar:
  "fst (process_file ex_env (init ''/w'' ''key'') 2 2 ''/w/a.py''
          (loop_step ex_env (init ''/w'' ''key'') 2 1 ''/w/a.json/b.py'' clean_state))
     = Inl (IsADirectoryError ''/w/docs/codebase/a.json'')
   \<and> fsys (loop_step ex_env (init ''/w'' ''key'') 2 1 ''/w/a.json/b.py'' clean_state)
         (Path ''/w/docs/codebase/a.md'') = None
   \<and> fsys (snd (process_file ex_env (init ''/w'' ''key'') 2 2 ''/w/a.py''
                  (loop_step ex_env (init ''/w'' ''key'') 2 1 ''/w/a.json/b.py'' clean_state)))
         (Path ''/w/docs/codebase/a.md'') = Some (File ''# summary'')"
proof -
  let ?s1 = "loop_step ex_env (init ''/w'' ''key'') 2 1 ''/w/a.json/b.py'' clean_state"
  have "fst (process_file ex_env (init ''/w'' ''key'') 2 2 ''/w/a.py'' ?s1)
     = Inl (IsADirectoryError ''/w/docs/codebase/a.json'')"
    by code_simp
  moreover have "fsys ?s1 (Path ''/w/docs/codebase/a.md'') = None" by code_simp
  moreover have "fsys (snd (process_file ex_env (init ''/w'' ''key'') 2 2 ''/w/a.py'' ?s1))
         (Path ''/w/docs/codebase/a.md'') = Some (File ''# summary'')"
    by code_simp
  ultimately show ?thesis by blast
qed

theorem failed_file_output_witness:
  "fails_before_save failing_env (init ''/w'' ''key'') 1 1 ''/w/src/foo/bar.ts'' one_file_state
   \<and> fsys (snd (process_file failing_env (init ''/w'' ''key'') 1 1 ''/w/src/foo/bar.ts''
                  one_file_state)) = fsys one_file_state
   \<and> fst (process_file ex_env (init ''/w'' ''key'') 2 2 ''/w/a.py''
            (loop_step ex_env (init ''/w'' ''key'') 2 1 ''/w/a.json/b.py'' clean_state))
       = Inl (IsADirectoryError ''/w/docs/codebase/a.json'')
   \<and> fsys (snd (process_file ex_env (init ''/w'' ''key'') 2 2 ''/w/a.py''
                  (loop_step ex_env (init ''/w'' ''key'') 2 1 ''/w/a.json/b.py'' clean_state)))
         (Path ''/w/docs/codebase/a.json'') = Some Dir"
proof -
  let ?g = "init ''/w'' ''key''"
  let ?s1 = "loop_step ex_env ?g 2 1 ''/w/a.json/b.py'' clean_state"
  let ?rel = "\<lparr>root = [], parts = [''a.py'']\<rparr>"
  have fb: "fails_before_save failing_env ?g 1 1 ''/w/src/foo/bar.ts'' one_file_state"
    by code_simp
  have 1: "fsys (snd (process_file failing_env ?g 1 1 ''/w/src/foo/bar.ts'' one_file_state))
      = fsys one_file_state"
    using fb failed_file_output [where ev = failing_env and ws = "''/w''" and key = "''key''"
        and n = 1 and i = 1 and f = "''/w/src/foo/bar.ts''" and s = one_file_state]
    by blast
  have pf: "fst (process_file ex_env ?g 2 2 ''/w/a.py'' ?s1)
      = Inl (IsADirectoryError ''/w/docs/codebase/a.json'')"
    by code_simp
  have r: "relative_to (Path ''/w/a.py'') (Path ''/w'') = Inr ?rel" by code_simp
  have o: "output_path ''/w'' ?rel ''.json'' = Path ''/w/docs/codebase/a.json''" by code_simp
  have d: "fsys ?s1 (Path ''/w/docs/codebase/a.json'') = Some Dir" by code_simp
  have "fsys (snd (process_file ex_env ?g 2 2 ''/w/a.py'' ?s1)) (output_path ''/w'' ?rel ''.json'')
      = fsys ?s1 (output_path ''/w'' ?rel ''.json'')"
    using pf r failed_file_output [where ev = ex_env and ws = "''/w''" and key = "''key''"
        and n = 2 and i = 2 and f = "''/w/a.py''" and s = ?s1]
    by blast
  then have 2: "fsys (snd (process_file ex_env ?g 2 2 ''/w/a.py'' ?s1))
      (Path ''/w/docs/codebase/a.json'') = Some Dir"
    unfolding o d .
  from fb 1 pf 2 show ?thesis by blast
qed

end
